theory Spec2Isabelle
  imports Main "HOL-Library.Sublist"
begin

section \<open>JavaScript strings\<close>

text \<open>
  A JavaScript string is modelled as a \<^typ>\<open>string\<close>, one \<^typ>\<open>char\<close> per code unit
  below 256.  The regular-expression class \<^verbatim>\<open>\s\<close> and \<^verbatim>\<open>String.prototype.trim\<close> use the
  same set of characters (WhiteSpace and LineTerminator); its members below 256 are
  TAB, LF, VT, FF, CR, SPACE and NBSP.
\<close>

definition is_white_space :: "char \<Rightarrow> bool" where
  "is_white_space c =
     (c = CHR 0x09 \<or> c = CHR 0x0A \<or> c = CHR 0x0B \<or> c = CHR 0x0C \<or>
      c = CHR 0x0D \<or> c = CHR 0x20 \<or> c = CHR 0xA0)"


definition CRLF :: string where
  "CRLF = [CHR 0x0D, CHR 0x0A]"

text \<open>\<^verbatim>\<open>text.trim()\<close>\<close>

definition js_trim :: "string \<Rightarrow> string" where
  "js_trim text = rev (dropWhile is_white_space (rev (dropWhile is_white_space text)))"

text \<open>
  \<^verbatim>\<open>text.replace(pattern, replacement)\<close> with a string pattern: only the first
  occurrence is replaced.  The replacement is inserted literally (the source only passes
  the empty string, which has no \<^verbatim>\<open>$\<close> pattern).
\<close>

fun js_replace :: "string \<Rightarrow> string \<Rightarrow> string \<Rightarrow> string" where
  "js_replace pat rep [] = (if pat = [] then rep else [])"
| "js_replace pat rep (c # cs) =
     (if take (length pat) (c # cs) = pat then rep @ drop (length pat) (c # cs)
      else c # js_replace pat rep cs)"

text \<open>\<^verbatim>\<open>parts.join(separator)\<close>\<close>

fun js_join :: "string \<Rightarrow> string list \<Rightarrow> string" where
  "js_join sep [] = []"
| "js_join sep [x] = x"
| "js_join sep (x # y # ys) = x @ sep @ js_join sep (y # ys)"

text \<open>
  \<^verbatim>\<open>text.replace(/\s\s+/g, replacer)\<close>: scanning from the left, every maximal run of two
  or more white-space characters is replaced by the replacer; a white-space character
  with no white-space neighbour is kept as it is.
\<close>

function removeDoubleSpacesAndLineBreaks :: "string \<Rightarrow> string \<Rightarrow> string" where
  "removeDoubleSpacesAndLineBreaks [] replacer = []"
| "removeDoubleSpacesAndLineBreaks [c] replacer = [c]"
| "removeDoubleSpacesAndLineBreaks (c # d # cs) replacer =
     (if is_white_space c \<and> is_white_space d
      then replacer @ removeDoubleSpacesAndLineBreaks (dropWhile is_white_space cs) replacer
      else c # removeDoubleSpacesAndLineBreaks (d # cs) replacer)"
  by pat_completeness auto
termination
  by (relation "measure (\<lambda>(text, replacer). length text)")
     (auto simp: less_Suc_eq_le intro: le_trans [OF length_dropWhile_le])

text \<open>The default value of the parameter \<^verbatim>\<open>replacer\<close>, used by every call.\<close>

definition default_replacer :: string where
  "default_replacer = '' ''"

section \<open>Declarations, as the source-analysis library hands them out\<close>

datatype scope = Public | Protected | Private

text \<open>
  The library keeps one node per declaration, and \<^verbatim>\<open>removeBody()\<close> changes the node it
  is called on: every later read of the project sees the node without its body.  The
  state of a run is therefore the set of the nodes whose body has been removed so far.
  A node is known by its identity: the same node reached twice (a declaration exported
  under two names, or by two modules) is twice the same value.
\<close>

type_synonym removed_bodies = "nat set"

text \<open>
  A node that may have a body (a function or a method): its identity, its text before
  the body, and the full text of the body (with the white space leading to it) as it is
  when the run starts.  \<^verbatim>\<open>removeBody()\<close> replaces the full text of the body by a semicolon
  and leaves a node without body unchanged.
\<close>

record bodyable_node =
  node_id :: nat
  text_before_body :: string
  body_full_text :: "string option"

definition hasBody :: "'a bodyable_node_scheme \<Rightarrow> removed_bodies \<Rightarrow> bool" where
  "hasBody n st = (body_full_text n \<noteq> None \<and> node_id n \<notin> st)"

definition getText :: "'a bodyable_node_scheme \<Rightarrow> removed_bodies \<Rightarrow> string" where
  "getText n st =
     text_before_body n @
     (case body_full_text n of
        None \<Rightarrow> []
      | Some b \<Rightarrow> if node_id n \<in> st then '';'' else b)"

definition removeBody :: "'a bodyable_node_scheme \<Rightarrow> removed_bodies \<Rightarrow> removed_bodies" where
  "removeBody n st = (if hasBody n st then insert (node_id n) st else st)"

text \<open>
  A method carries its visibility modifier, if it has one, and whether it is abstract;
  \<^verbatim>\<open>getScope()\<close> answers \<^verbatim>\<open>public\<close> for a method without modifier.
\<close>

record method_declaration = bodyable_node +
  scope_modifier :: "scope option"
  abstract_modifier :: bool

definition getScope :: "method_declaration \<Rightarrow> scope" where
  "getScope m = (case scope_modifier m of None \<Rightarrow> Public | Some s \<Rightarrow> s)"

type_synonym function_declaration = bodyable_node

text \<open>
  A class: its name, the texts of its type parameters, of its \<^verbatim>\<open>extends\<close> expression and
  of its \<^verbatim>\<open>implements\<close> expressions, the method declarations among its members, whether
  it is ambient, and its own text (which changes with the bodies of its methods).
  \<^verbatim>\<open>getMethods()\<close> does not list a method declaration without body (for the library an
  overload signature), unless the method is abstract or the class is ambient.
\<close>

record class_declaration =
  class_name :: "string option"
  class_type_parameters :: "string list"
  class_extends :: "string option"
  class_implements :: "string list"
  class_members :: "method_declaration list"
  class_is_ambient :: bool
  class_text :: "removed_bodies \<Rightarrow> string"

definition getMethods :: "class_declaration \<Rightarrow> removed_bodies \<Rightarrow> method_declaration list" where
  "getMethods c st =
     filter (\<lambda>m. class_is_ambient c \<or> abstract_modifier m \<or> hasBody m st) (class_members c)"

datatype declaration_kind = Const | Let | Var

text \<open>
  A variable declaration: its name, the text of the type that the type checker resolves
  for it (\<^verbatim>\<open>getType().getText(declaration)\<close>; the checker reads the project as it is, so
  the answer depends on the bodies removed so far), the text of its initializer, its own
  text and the keyword of the statement it stands in.
\<close>

record variable_declaration =
  variable_name :: string
  variable_type_text :: "removed_bodies \<Rightarrow> string"
  variable_initializer :: "string option"
  variable_text :: string
  variable_keyword :: declaration_kind

text \<open>
  An interface: name, texts of the type parameters, texts of the own properties, the
  declarations of its bases (\<^verbatim>\<open>getBaseDeclarations()\<close>: interfaces, classes or type
  aliases) and its own text.
\<close>

datatype interface_declaration =
  Interface (interface_name: string) (interface_type_parameters: "string list")
    (interface_properties: "string list") (interface_bases: "base_declaration list")
    (interface_text: string)
and base_declaration =
  BaseInterface interface_declaration
| BaseClass
| BaseTypeAlias

text \<open>
  An exported declaration.  A type alias and an enum are read through their text only.
  A node of any other kind (a namespace, a source file, an expression) carries the name
  of its kind and its text, which may contain nodes that lose their body during the run.
\<close>

datatype ExportedDeclarations =
  ClassDeclaration class_declaration
| FunctionDeclaration function_declaration
| VariableDeclaration variable_declaration
| InterfaceDeclaration interface_declaration
| TypeAliasDeclaration string
| EnumDeclaration string
| OtherDeclaration string "removed_bodies \<Rightarrow> string"

fun getKindName :: "ExportedDeclarations \<Rightarrow> string" where
  "getKindName (ClassDeclaration c) = ''ClassDeclaration''"
| "getKindName (FunctionDeclaration f) = ''FunctionDeclaration''"
| "getKindName (VariableDeclaration v) = ''VariableDeclaration''"
| "getKindName (InterfaceDeclaration i) = ''InterfaceDeclaration''"
| "getKindName (TypeAliasDeclaration t) = ''TypeAliasDeclaration''"
| "getKindName (EnumDeclaration t) = ''EnumDeclaration''"
| "getKindName (OtherDeclaration k t) = k"

fun declaration_text :: "ExportedDeclarations \<Rightarrow> removed_bodies \<Rightarrow> string" where
  "declaration_text (ClassDeclaration c) st = class_text c st"
| "declaration_text (FunctionDeclaration f) st = getText f st"
| "declaration_text (VariableDeclaration v) st = variable_text v"
| "declaration_text (InterfaceDeclaration i) st = interface_text i"
| "declaration_text (TypeAliasDeclaration t) st = t"
| "declaration_text (EnumDeclaration t) st = t"
| "declaration_text (OtherDeclaration k t) st = t st"

text \<open>The type guards of the library test the kind of the node.\<close>

fun isFunctionDeclaration :: "ExportedDeclarations \<Rightarrow> bool" where
  "isFunctionDeclaration (FunctionDeclaration f) = True"
| "isFunctionDeclaration d = False"

fun isClassDeclaration :: "ExportedDeclarations \<Rightarrow> bool" where
  "isClassDeclaration (ClassDeclaration c) = True"
| "isClassDeclaration d = False"

fun isVariableDeclaration :: "ExportedDeclarations \<Rightarrow> bool" where
  "isVariableDeclaration (VariableDeclaration v) = True"
| "isVariableDeclaration d = False"

fun isInterfaceDeclaration :: "ExportedDeclarations \<Rightarrow> bool" where
  "isInterfaceDeclaration (InterfaceDeclaration i) = True"
| "isInterfaceDeclaration d = False"

fun isTypeAliasDeclaration :: "ExportedDeclarations \<Rightarrow> bool" where
  "isTypeAliasDeclaration (TypeAliasDeclaration t) = True"
| "isTypeAliasDeclaration d = False"

fun isEnumDeclaration :: "ExportedDeclarations \<Rightarrow> bool" where
  "isEnumDeclaration (EnumDeclaration t) = True"
| "isEnumDeclaration d = False"

section \<open>The formatting rules\<close>

text \<open>
  A rule takes the declaration and the state of the run and answers the signature with
  the new state, or the error it throws (which ends the run).
\<close>

datatype error = Error string | TypeError

type_synonym rule = "ExportedDeclarations \<Rightarrow> removed_bodies \<Rightarrow> error + string \<times> removed_bodies"

definition formatFunctionDeclaration :: rule where
  "formatFunctionDeclaration decl st =
     (case decl of
        FunctionDeclaration f \<Rightarrow>
          (let st = removeBody f st;
               signature = js_replace ''export function'' [] (getText f st)
           in Inr (js_trim (removeDoubleSpacesAndLineBreaks signature default_replacer), st))
      | _ \<Rightarrow> Inl (Error ''Declaration is not a function''))"

text \<open>
  \<^verbatim>\<open>formatMethodText\<close> answers \<^verbatim>\<open>undefined\<close> (here \<^const>\<open>None\<close>) for a method that is not
  public.  \<^verbatim>\<open>map\<close> calls it on the methods one after the other, and \<^verbatim>\<open>filter(Boolean)\<close>
  drops \<^verbatim>\<open>undefined\<close> and the empty string.
\<close>

definition formatMethodText ::
  "method_declaration \<Rightarrow> removed_bodies \<Rightarrow> string option \<times> removed_bodies" where
  "formatMethodText method st =
     (if getScope method \<noteq> Public then (None, st)
      else (let st = removeBody method st in (Some (getText method st), st)))"

fun map_formatMethodText ::
  "method_declaration list \<Rightarrow> removed_bodies \<Rightarrow> string option list \<times> removed_bodies" where
  "map_formatMethodText [] st = ([], st)"
| "map_formatMethodText (m # ms) st =
     (let (x, st) = formatMethodText m st;
          (xs, st) = map_formatMethodText ms st
      in (x # xs, st))"

fun filter_Boolean :: "string option list \<Rightarrow> string list" where
  "filter_Boolean [] = []"
| "filter_Boolean (None # xs) = filter_Boolean xs"
| "filter_Boolean (Some s # xs) = (if s = [] then filter_Boolean xs else s # filter_Boolean xs)"

definition formatClassDeclaration :: rule where
  "formatClassDeclaration decl st =
     (case decl of
        ClassDeclaration c \<Rightarrow>
          (let classNameText = (case class_name c of None \<Rightarrow> ''undefined'' | Some n \<Rightarrow> n);
               typesText = js_join '', ''
                 (map (\<lambda>p. removeDoubleSpacesAndLineBreaks p default_replacer)
                   (class_type_parameters c));
               extendsText = removeDoubleSpacesAndLineBreaks
                 (case class_extends c of None \<Rightarrow> [] | Some t \<Rightarrow> t) default_replacer;
               implementsText = js_join '', ''
                 (map (\<lambda>impl. removeDoubleSpacesAndLineBreaks impl default_replacer)
                   (class_implements c));
               (texts, st) = map_formatMethodText (getMethods c st) st;
               methodsText = js_join CRLF (filter_Boolean texts);
               signature = ''class '' @ classNameText;
               signature = (if typesText \<noteq> [] then signature @ ''<'' @ typesText @ ''>''
                            else signature);
               signature = (if extendsText \<noteq> [] then signature @ '' extends '' @ extendsText
                            else signature);
               signature = (if implementsText \<noteq> []
                            then signature @ '' implements '' @ implementsText
                            else signature);
               signature = (if methodsText \<noteq> []
                            then signature @ '' {'' @ CRLF @ methodsText @ CRLF @ ''}''
                            else signature @ '' { }'')
           in Inr (js_trim signature, st))
      | _ \<Rightarrow> Inl (Error ''Declaration is not a class''))"

definition formatVariableDeclaration :: rule where
  "formatVariableDeclaration decl st =
     (case decl of
        VariableDeclaration v \<Rightarrow>
          (let nameText = variable_name v;
               typeText = variable_type_text v st
           in Inr (''const '' @ nameText @ '': '' @ typeText, st))
      | _ \<Rightarrow> Inl (Error ''Declaration is not a variable''))"

definition formatTypeAliasDeclaration :: rule where
  "formatTypeAliasDeclaration decl st =
     (case decl of
        TypeAliasDeclaration t \<Rightarrow> Inr (js_trim (js_replace ''export'' [] t), st)
      | _ \<Rightarrow> Inl (Error ''Declaration is not a type alias''))"

definition formatEnumDeclaration :: rule where
  "formatEnumDeclaration decl st =
     (case decl of
        EnumDeclaration t \<Rightarrow> Inr (t, st)
      | _ \<Rightarrow> Inl (Error ''Declaration is not an enum''))"

text \<open>The section of one base declaration in \<^verbatim>\<open>extendedPropertiesText\<close>.\<close>

fun inherited_section :: "base_declaration \<Rightarrow> string list" where
  "inherited_section (BaseInterface b) =
     [[], ''// inherited from '' @ interface_name b] @
     map (\<lambda>p. removeDoubleSpacesAndLineBreaks p default_replacer) (interface_properties b)"
| "inherited_section BaseClass = []"
| "inherited_section BaseTypeAlias = []"

definition formatInterfaceDeclaration :: rule where
  "formatInterfaceDeclaration decl st =
     (case decl of
        InterfaceDeclaration i \<Rightarrow>
          (let interfaceNameText = interface_name i;
               typesText = js_join '', ''
                 (map (\<lambda>p. removeDoubleSpacesAndLineBreaks p default_replacer)
                   (interface_type_parameters i));
               ownPropertiesText =
                 map (\<lambda>p. removeDoubleSpacesAndLineBreaks p default_replacer)
                   (interface_properties i);
               extendedPropertiesText = concat (map inherited_section (interface_bases i));
               propertiesText = js_join CRLF (ownPropertiesText @ extendedPropertiesText);
               signature = ''interface '' @ interfaceNameText;
               signature = (if typesText \<noteq> [] then signature @ ''<'' @ typesText @ ''>''
                            else signature);
               signature = (if propertiesText \<noteq> []
                            then signature @ '' {'' @ CRLF @ propertiesText @ CRLF @ ''}''
                            else signature @ '' {}'')
           in Inr (signature, st))
      | _ \<Rightarrow> Inl (Error ''Declaration is not an interface''))"

section \<open>The dispatch table and the assembler\<close>

definition signatures :: "(string \<times> rule) list" where
  "signatures =
     [(''ClassDeclaration'', formatClassDeclaration),
      (''FunctionDeclaration'', formatFunctionDeclaration),
      (''VariableDeclaration'', formatVariableDeclaration),
      (''InterfaceDeclaration'', formatInterfaceDeclaration),
      (''TypeAliasDeclaration'', formatTypeAliasDeclaration),
      (''EnumDeclaration'', formatEnumDeclaration)]"

text \<open>
  The body of the callback of \<^verbatim>\<open>declarations.map\<close>: the rule of the table for the kind
  name of the declaration, or else the rule that answers the text of the declaration.
\<close>

definition format_overload :: rule where
  "format_overload d st =
     (let formatter = (case map_of signatures (getKindName d) of
                         Some f \<Rightarrow> f
                       | None \<Rightarrow> (\<lambda>decl st. Inr (declaration_text decl st, st)))
      in formatter d st)"

text \<open>
  \<^verbatim>\<open>declarations.map(...)\<close>: the declarations are formatted one after the other, each in
  the state that the ones before it have left; the first rule that throws ends the run.
\<close>

fun map_overloads ::
  "ExportedDeclarations list \<Rightarrow> removed_bodies \<Rightarrow> error + string list \<times> removed_bodies" where
  "map_overloads [] st = Inr ([], st)"
| "map_overloads (d # ds) st =
     (case format_overload d st of
        Inl e \<Rightarrow> Inl e
      | Inr (s, st) \<Rightarrow>
          (case map_overloads ds st of Inl e \<Rightarrow> Inl e | Inr (ss, st) \<Rightarrow> Inr (s # ss, st)))"

record Output =
  output_module :: string
  output_api :: string
  output_kind :: string
  output_signatures :: "string list"

text \<open>
  A source file: the base name of its directory and its exported declarations, in the
  order in which the map of the library enumerates them.
\<close>

record source_file =
  directory_base_name :: string
  exported_declarations :: "(string \<times> ExportedDeclarations list) list"

text \<open>
  One turn of the loop of \<^verbatim>\<open>generateApiForFile\<close>.  The fields of the record are
  evaluated in order: \<^verbatim>\<open>declarations[0].getKindName()\<close> throws a \<^verbatim>\<open>TypeError\<close> on an
  empty list before any rule runs.
\<close>

definition output_record ::
  "string \<Rightarrow> string \<Rightarrow> ExportedDeclarations list \<Rightarrow> removed_bodies \<Rightarrow>
   error + Output \<times> removed_bodies" where
  "output_record module key declarations st =
     (case declarations of
        [] \<Rightarrow> Inl TypeError
      | d0 # _ \<Rightarrow>
          (case map_overloads declarations st of
             Inl e \<Rightarrow> Inl e
           | Inr (sigs, st) \<Rightarrow>
               Inr (\<lparr>output_module = module, output_api = key,
                     output_kind = getKindName d0, output_signatures = sigs\<rparr>, st)))"

fun file_output ::
  "string \<Rightarrow> (string \<times> ExportedDeclarations list) list \<Rightarrow> removed_bodies \<Rightarrow>
   error + Output list \<times> removed_bodies" where
  "file_output module [] st = Inr ([], st)"
| "file_output module ((key, declarations) # rest) st =
     (case output_record module key declarations st of
        Inl e \<Rightarrow> Inl e
      | Inr (r, st) \<Rightarrow>
          (case file_output module rest st of Inl e \<Rightarrow> Inl e | Inr (rs, st) \<Rightarrow> Inr (r # rs, st)))"

definition generateApiForFile ::
  "source_file \<Rightarrow> removed_bodies \<Rightarrow> error + Output list \<times> removed_bodies" where
  "generateApiForFile sourceFile st =
     (let module = directory_base_name sourceFile;
          exportDeclarations = exported_declarations sourceFile
      in file_output module exportDeclarations st)"

text \<open>\<^verbatim>\<open>files.map(generateApiForFile)\<close>: the files one after the other.\<close>

fun map_generateApiForFile ::
  "source_file list \<Rightarrow> removed_bodies \<Rightarrow> error + Output list list \<times> removed_bodies" where
  "map_generateApiForFile [] st = Inr ([], st)"
| "map_generateApiForFile (file # files) st =
     (case generateApiForFile file st of
        Inl e \<Rightarrow> Inl e
      | Inr (out, st) \<Rightarrow>
          (case map_generateApiForFile files st of
             Inl e \<Rightarrow> Inl e
           | Inr (outs, st) \<Rightarrow> Inr (out # outs, st)))"

text \<open>
  \<^verbatim>\<open>generateApi\<close>, between its two ends: the source files that \<^verbatim>\<open>getBarrelFiles\<close> reads
  from the project are the argument, and the list handed to \<^verbatim>\<open>writeApi\<close> is the result,
  the outputs of the files concatenated in the order of the files.  When the run starts
  no body has been removed.
\<close>

definition generateApi :: "source_file list \<Rightarrow> error + Output list" where
  "generateApi files =
     (case map_generateApiForFile files {} of
        Inl e \<Rightarrow> Inl e
      | Inr (outs, st) \<Rightarrow> Inr (concat outs))"

section \<open>Notions used by the properties\<close>


text \<open>
  The kind name of a node is the name of its kind in the enumeration of the library, so
  the name of a node of another kind is none of the six names of the table.  It is also
  none of the property names that the table object inherits from its prototype, which an
  index of the object would find.
\<close>

definition object_prototype_names :: "string list" where
  "object_prototype_names =
     [''constructor'', ''hasOwnProperty'', ''isPrototypeOf'', ''propertyIsEnumerable'',
      ''toLocaleString'', ''toString'', ''valueOf'', ''__proto__'',
      ''__defineGetter__'', ''__defineSetter__'', ''__lookupGetter__'', ''__lookupSetter__'']"

fun kind_name_consistent :: "ExportedDeclarations \<Rightarrow> bool" where
  "kind_name_consistent (OtherDeclaration k t) =
     (k \<notin> set (map fst signatures) \<and> k \<notin> set object_prototype_names)"
| "kind_name_consistent d = True"

text \<open>
  Every exported name of a file has at least one declaration, and the kind names of the
  declarations are consistent.
\<close>

definition well_formed_file :: "source_file \<Rightarrow> bool" where
  "well_formed_file f =
     list_all (\<lambda>(key, ds). ds \<noteq> [] \<and> list_all kind_name_consistent ds)
       (exported_declarations f)"

text \<open>
  The kind names of all declarations of a file are consistent (the lists of declarations
  may be empty).
\<close>

definition kinds_consistent :: "source_file \<Rightarrow> bool" where
  "kinds_consistent f =
     list_all (\<lambda>(key, ds). list_all kind_name_consistent ds) (exported_declarations f)"

text \<open>The signature of a class before the body is appended (the first four steps).\<close>

definition class_heading :: "class_declaration \<Rightarrow> string" where
  "class_heading c =
     (let classNameText = (case class_name c of None \<Rightarrow> ''undefined'' | Some n \<Rightarrow> n);
          typesText = js_join '', ''
            (map (\<lambda>p. removeDoubleSpacesAndLineBreaks p default_replacer)
              (class_type_parameters c));
          extendsText = removeDoubleSpacesAndLineBreaks
            (case class_extends c of None \<Rightarrow> [] | Some t \<Rightarrow> t) default_replacer;
          implementsText = js_join '', ''
            (map (\<lambda>impl. removeDoubleSpacesAndLineBreaks impl default_replacer)
              (class_implements c));
          signature = ''class '' @ classNameText;
          signature = (if typesText \<noteq> [] then signature @ ''<'' @ typesText @ ''>''
                       else signature);
          signature = (if extendsText \<noteq> [] then signature @ '' extends '' @ extendsText
                       else signature);
          signature = (if implementsText \<noteq> []
                       then signature @ '' implements '' @ implementsText
                       else signature)
      in signature)"

text \<open>The signature of an interface before the body is appended.\<close>

definition interface_heading :: "interface_declaration \<Rightarrow> string" where
  "interface_heading i =
     (let typesText = js_join '', ''
            (map (\<lambda>p. removeDoubleSpacesAndLineBreaks p default_replacer)
              (interface_type_parameters i));
          signature = ''interface '' @ interface_name i;
          signature = (if typesText \<noteq> [] then signature @ ''<'' @ typesText @ ''>''
                       else signature)
      in signature)"

text \<open>A base declaration with the bases of its own taken away.\<close>

fun without_bases :: "base_declaration \<Rightarrow> base_declaration" where
  "without_bases (BaseInterface b) =
     BaseInterface (Interface (interface_name b) (interface_type_parameters b)
       (interface_properties b) [] (interface_text b))"
| "without_bases BaseClass = BaseClass"
| "without_bases BaseTypeAlias = BaseTypeAlias"

text \<open>
  The line of a method in the body of a class: its text with a semicolon in place of the
  body.
\<close>

definition method_line :: "method_declaration \<Rightarrow> string" where
  "method_line m =
     text_before_body m @ (case body_full_text m of None \<Rightarrow> [] | Some b \<Rightarrow> '';'')"

text \<open>
  The states in which the declarations of an exported name are formatted, one after the
  other from a given state, and the states in which the loop of a file reaches its
  exported names.
\<close>

fun overload_states :: "ExportedDeclarations list \<Rightarrow> removed_bodies \<Rightarrow> removed_bodies list" where
  "overload_states [] st = []"
| "overload_states (d # ds) st =
     st # overload_states ds (case format_overload d st of Inl e \<Rightarrow> st | Inr (s, st') \<Rightarrow> st')"

fun entry_states ::
  "(string \<times> ExportedDeclarations list) list \<Rightarrow> removed_bodies \<Rightarrow> removed_bodies list" where
  "entry_states [] st = []"
| "entry_states ((key, ds) # es) st =
     st # entry_states es (case map_overloads ds st of Inl e \<Rightarrow> st | Inr (ss, st') \<Rightarrow> st')"

text \<open>The exported names of the files of a run, each with the name of its module.\<close>

fun export_entries :: "source_file list \<Rightarrow> (string \<times> string) list" where
  "export_entries [] = []"
| "export_entries (f # fs) =
     map (\<lambda>(key, ds). (directory_base_name f, key)) (exported_declarations f) @
     export_entries fs"

text \<open>
  A rule throws its error with the given message exactly on the declarations that its
  type guard rejects, and answers a signature exactly on those that the guard accepts,
  in every state.
\<close>

definition raises_iff_mismatch :: "rule \<Rightarrow> (ExportedDeclarations \<Rightarrow> bool) \<Rightarrow> string \<Rightarrow> bool" where
  "raises_iff_mismatch rule guard message =
     (\<forall>d st. (rule d st = Inl (Error message)) = (\<not> guard d) \<and>
             (\<exists>s st'. rule d st = Inr (s, st')) = guard d)"

section \<open>Example inputs\<close>

definition store_module :: source_file where
  "store_module =
     \<lparr>directory_base_name = ''store'',
      exported_declarations =
        [(''select'',
          [FunctionDeclaration
             \<lparr>node_id = 1,
              text_before_body = ''export function select(key: string): string;'',
              body_full_text = None\<rparr>,
           FunctionDeclaration
             \<lparr>node_id = 2,
              text_before_body = ''export function select(key: string): string;'',
              body_full_text = None\<rparr>,
           FunctionDeclaration
             \<lparr>node_id = 3,
              text_before_body = ''export function select(key: any): any'',
              body_full_text = Some '' { return key; }''\<rparr>]),
         (''testing'',
          [OtherDeclaration ''ModuleDeclaration'' (\<lambda>st. ''namespace testing { }'')]),
         (''Mode'', [EnumDeclaration ''export enum Mode { On, Off }''])]\<rparr>"

definition effects_module :: source_file where
  "effects_module =
     \<lparr>directory_base_name = ''effects'',
      exported_declarations =
        [(''retries'',
          [VariableDeclaration
             \<lparr>variable_name = ''retries'', variable_type_text = (\<lambda>st. ''number''),
              variable_initializer = Some ''3'', variable_text = ''retries = 3'',
              variable_keyword = Let\<rparr>])]\<rparr>"

definition store_class :: class_declaration where
  "store_class =
     \<lparr>class_name = Some ''Store'', class_type_parameters = [''T''], class_extends = None,
      class_implements = [''Observer<T>''],
      class_members =
        [\<lparr>node_id = 11, text_before_body = ''select(key: string): T'',
          body_full_text = Some '' { return this.state[key]; }'', scope_modifier = None,
          abstract_modifier = False\<rparr>,
         \<lparr>node_id = 12, text_before_body = ''private reduce(action: Action): void'',
          body_full_text = Some '' { }'', scope_modifier = Some Private,
          abstract_modifier = False\<rparr>,
         \<lparr>node_id = 13, text_before_body = ''protected notify(): void'',
          body_full_text = Some '' { }'', scope_modifier = Some Protected,
          abstract_modifier = False\<rparr>,
         \<lparr>node_id = 14, text_before_body = ''public static create<T>(): Store<T>'',
          body_full_text = Some '' { return new Store<T>(); }'',
          scope_modifier = Some Public, abstract_modifier = False\<rparr>],
      class_is_ambient = False,
      class_text = (\<lambda>st. ''export class Store<T> implements Observer<T> { }'')\<rparr>"

text \<open>A module that exports the class under two names.\<close>

definition two_names_module :: source_file where
  "two_names_module =
     \<lparr>directory_base_name = ''store'',
      exported_declarations =
        [(''Store'', [ClassDeclaration store_class]),
         (''AppStore'', [ClassDeclaration store_class])]\<rparr>"

definition root_interface :: interface_declaration where
  "root_interface =
     Interface ''Root'' [] [''id: string;''] [] ''interface Root { id: string; }''"

definition action_interface :: interface_declaration where
  "action_interface =
     Interface ''Action'' [] [''type:  string;''] [BaseInterface root_interface]
       ''interface Action extends Root { type:  string; }''"

definition typed_action_interface :: interface_declaration where
  "typed_action_interface =
     Interface ''TypedAction'' [''T''] [''readonly payload: T;'']
       [BaseInterface action_interface]
       ''interface TypedAction<T> extends Action { readonly payload: T; }''"


text \<open>
  A module with a function whose return type is inferred from its body, and a variable
  whose type is the return type of the function.
\<close>

definition count_module :: source_file where
  "count_module =
     \<lparr>directory_base_name = ''count'',
      exported_declarations =
        [(''count'',
          [FunctionDeclaration
             \<lparr>node_id = 21, text_before_body = ''export function count()'',
              body_full_text = Some '' { return 1; }''\<rparr>]),
         (''total'',
          [VariableDeclaration
             \<lparr>variable_name = ''total'',
              variable_type_text = (\<lambda>st. if 21 \<in> st then ''any'' else ''number''),
              variable_initializer = Some ''count()'', variable_text = ''total = count()'',
              variable_keyword = Const\<rparr>])]\<rparr>"

section \<open>Strings: collapsing and trimming\<close>











lemma js_trim_id:
  "s \<noteq> [] \<Longrightarrow> \<not> is_white_space (hd s) \<Longrightarrow> \<not> is_white_space (last s) \<Longrightarrow>
   js_trim s = s"
proof -
  assume a: "s \<noteq> []" "\<not> is_white_space (hd s)" "\<not> is_white_space (last s)"
  then have 1: "dropWhile is_white_space s = s"
    by (cases s) auto
  from a have "rev s \<noteq> []" "\<not> is_white_space (hd (rev s))"
    by (simp_all add: hd_rev)
  then have "dropWhile is_white_space (rev s) = rev s"
    by (cases "rev s") auto
  with 1 show ?thesis by (simp add: js_trim_def)
qed

section \<open>The rules, step by step\<close>

lemmas pipeline_defs =
  generateApi_def generateApiForFile_def output_record_def format_overload_def signatures_def

lemmas rule_defs =
  formatClassDeclaration_def formatFunctionDeclaration_def formatVariableDeclaration_def
  formatInterfaceDeclaration_def formatTypeAliasDeclaration_def formatEnumDeclaration_def

lemmas node_defs =
  getText_def removeBody_def hasBody_def getMethods_def formatMethodText_def getScope_def

lemma js_join_nonempty: "xs \<noteq> [] \<Longrightarrow> hd xs \<noteq> [] \<Longrightarrow> js_join sep xs \<noteq> []"
  by (induction sep xs rule: js_join.induct) auto

lemma getText_removeBody: "getText m (removeBody m st) = method_line m"
  by (simp add: getText_def removeBody_def hasBody_def method_line_def split: option.splits)

lemma getScope_public:
  "(getScope m = Public) = (scope_modifier m = None \<or> scope_modifier m = Some Public)"
  by (simp add: getScope_def split: option.splits)

lemma map_formatMethodText_texts:
  "fst (map_formatMethodText ms st) =
   map (\<lambda>m. if getScope m \<noteq> Public then None else Some (method_line m)) ms"
proof (induction ms arbitrary: st)
  case Nil
  show ?case by simp
next
  case (Cons m ms)
  show ?case
    by (simp add: Cons.IH formatMethodText_def getText_removeBody split_beta Let_def)
qed

lemma map_formatMethodText_no_public:
  "filter (\<lambda>m. getScope m = Public) ms = [] \<Longrightarrow>
   map_formatMethodText ms st = (map (\<lambda>m. None) ms, st)"
  by (induction ms arbitrary: st) (auto simp: formatMethodText_def split: if_splits)

lemma filter_Boolean_None: "filter_Boolean (map (\<lambda>m. None) ms) = []"
  by (induction ms) auto

lemma filter_Boolean_lines:
  "\<forall>m\<in>set ms. method_line m \<noteq> [] \<Longrightarrow>
   filter_Boolean (map (\<lambda>m. if getScope m \<noteq> Public then None else Some (method_line m)) ms) =
   map method_line (filter (\<lambda>m. getScope m = Public) ms)"
  by (induction ms) auto

lemma class_format:
  "formatClassDeclaration (ClassDeclaration c) st =
   Inr (js_trim (class_heading c @
     (let methodsText =
            js_join CRLF (filter_Boolean (fst (map_formatMethodText (getMethods c st) st)))
      in if methodsText \<noteq> [] then '' {'' @ CRLF @ methodsText @ CRLF @ ''}'' else '' { }'')),
     snd (map_formatMethodText (getMethods c st) st))"
  by (simp add: formatClassDeclaration_def class_heading_def Let_def split_beta)

lemma class_heading_shape: "\<exists>r. class_heading c = ''class '' @ r"
  by (simp add: class_heading_def Let_def)

lemma class_trim:
  "js_trim (class_heading c @ body @ ''}'') = class_heading c @ body @ ''}''"
proof -
  obtain r where r: "class_heading c = ''class '' @ r"
    using class_heading_shape by blast
  show ?thesis
    by (rule js_trim_id) (simp_all add: r is_white_space_def)
qed

text \<open>
  The signature of a class in a given state: the heading, then the lines of the public
  methods among those that \<^const>\<open>getMethods\<close> lists in that state.
\<close>

lemma class_signature:
  assumes "\<forall>m\<in>set (class_members c). method_line m \<noteq> []"
  shows "\<exists>st'. formatClassDeclaration (ClassDeclaration c) st =
    Inr (class_heading c @
      (let public = filter (\<lambda>m. getScope m = Public) (getMethods c st)
       in if public = [] then '' { }''
          else '' {'' @ CRLF @ js_join CRLF (map method_line public) @ CRLF @ ''}''), st')"
proof -
  let ?public = "filter (\<lambda>m. getScope m = Public) (getMethods c st)"
  from assms have "\<forall>m\<in>set (getMethods c st). method_line m \<noteq> []"
    by (simp add: getMethods_def)
  then have lines:
    "filter_Boolean (fst (map_formatMethodText (getMethods c st) st)) = map method_line ?public"
    by (simp only: map_formatMethodText_texts filter_Boolean_lines)
  show ?thesis
  proof (cases "?public = []")
    case True
    then have "\<exists>st'. formatClassDeclaration (ClassDeclaration c) st =
        Inr (js_trim (class_heading c @ '' {'' @ '' }''), st')"
      by (simp add: class_format lines)
    with True show ?thesis
      using class_trim [of c "'' { ''"] by simp
  next
    case False
    then obtain m ms where p: "?public = m # ms" by (cases ?public) auto
    then have "m \<in> set ?public" by simp
    then have "m \<in> set (class_members c)" by (simp add: getMethods_def)
    with assms have "method_line m \<noteq> []" by simp
    with p have "js_join CRLF (map method_line ?public) \<noteq> []"
      by (intro js_join_nonempty) simp_all
    then have "\<exists>st'. formatClassDeclaration (ClassDeclaration c) st =
        Inr (js_trim (class_heading c @
          ('' {'' @ CRLF @ js_join CRLF (map method_line ?public) @ CRLF) @ ''}''), st')"
      by (simp add: class_format lines)
    with False show ?thesis
      using class_trim [of c "'' {'' @ CRLF @ js_join CRLF (map method_line ?public) @ CRLF"]
      by simp
  qed
qed

lemma class_no_public:
  assumes "filter (\<lambda>m. getScope m = Public) (class_members c) = []"
  shows "formatClassDeclaration (ClassDeclaration c) st = Inr (class_heading c @ '' { }'', st)"
proof -
  from assms have "filter (\<lambda>m. getScope m = Public) (getMethods c st) = []"
    by (auto simp: getMethods_def filter_empty_conv)
  then have "map_formatMethodText (getMethods c st) st =
      (map (\<lambda>m. None) (getMethods c st), st)"
    by (rule map_formatMethodText_no_public)
  then have "formatClassDeclaration (ClassDeclaration c) st =
      Inr (js_trim (class_heading c @ '' {'' @ '' }''), st)"
    by (simp add: class_format filter_Boolean_None)
  then show ?thesis
    using class_trim [of c "'' { ''"] by simp
qed

lemma interface_format:
  "formatInterfaceDeclaration (InterfaceDeclaration i) st =
   Inr (interface_heading i @
     (let propertiesText = js_join CRLF
            (map (\<lambda>p. removeDoubleSpacesAndLineBreaks p default_replacer)
               (interface_properties i) @
             concat (map inherited_section (interface_bases i)))
      in if propertiesText \<noteq> [] then '' {'' @ CRLF @ propertiesText @ CRLF @ ''}'' else '' {}''),
     st)"
  by (simp add: formatInterfaceDeclaration_def interface_heading_def Let_def)

lemma js_join_inherited:
  "js_join CRLF (xs @ [[], ''// inherited from '' @ n] @ ys) \<noteq> []"
proof (induction xs)
  case Nil
  show ?case by (simp add: CRLF_def)
next
  case (Cons x xs)
  then show ?case by (cases xs) (simp_all add: CRLF_def)
qed

lemma inherited_section_without_bases:
  "inherited_section (without_bases b) = inherited_section b"
  by (cases b) simp_all

lemma format_without_bases:
  "formatInterfaceDeclaration (InterfaceDeclaration (Interface n ps props bases t)) st =
   formatInterfaceDeclaration (InterfaceDeclaration
     (Interface n ps props (map without_bases bases) t)) st"
  by (simp add: interface_format interface_heading_def inherited_section_without_bases
      comp_def)

lemma rule_mismatch:
  "raises_iff_mismatch formatFunctionDeclaration isFunctionDeclaration ''Declaration is not a function''"
  "raises_iff_mismatch formatClassDeclaration isClassDeclaration ''Declaration is not a class''"
  "raises_iff_mismatch formatVariableDeclaration isVariableDeclaration ''Declaration is not a variable''"
  "raises_iff_mismatch formatInterfaceDeclaration isInterfaceDeclaration ''Declaration is not an interface''"
  "raises_iff_mismatch formatTypeAliasDeclaration isTypeAliasDeclaration ''Declaration is not a type alias''"
  "raises_iff_mismatch formatEnumDeclaration isEnumDeclaration ''Declaration is not an enum''"
  unfolding raises_iff_mismatch_def
  by (intro allI, case_tac d, simp_all add: rule_defs Let_def split_beta)+

section \<open>The assembler, state by state\<close>

lemma format_overload_other:
  "kind_name_consistent (OtherDeclaration k t) \<Longrightarrow>
   format_overload (OtherDeclaration k t) st = Inr (t st, st)"
  by (simp add: format_overload_def signatures_def)

lemma format_overload_total:
  "kind_name_consistent d \<Longrightarrow> \<exists>s st'. format_overload d st = Inr (s, st')"
proof (cases d)
  case (OtherDeclaration k t)
  assume "kind_name_consistent d"
  with OtherDeclaration show ?thesis by (simp add: format_overload_other)
qed (simp_all add: format_overload_def signatures_def rule_defs Let_def split_beta)

lemma map_overloads_total:
  "list_all kind_name_consistent ds \<Longrightarrow> \<exists>ss st'. map_overloads ds st = Inr (ss, st')"
proof (induction ds arbitrary: st)
  case Nil
  show ?case by simp
next
  case (Cons d ds)
  then obtain s st1 where 1: "format_overload d st = Inr (s, st1)"
    using format_overload_total [of d st] by auto
  from Cons obtain ss st2 where 2: "map_overloads ds st1 = Inr (ss, st2)"
    by fastforce
  from 1 2 show ?case by simp
qed

lemma map_overloads_positions:
  "map_overloads ds st = Inr (ss, st') \<Longrightarrow>
   length ss = length ds \<and>
   (\<forall>j<length ds. \<exists>st''.
      format_overload (ds ! j) (overload_states ds st ! j) = Inr (ss ! j, st''))"
proof (induction ds arbitrary: st ss)
  case Nil
  then show ?case by simp
next
  case (Cons d ds)
  from Cons.prems obtain s st1 ss1 where 1: "format_overload d st = Inr (s, st1)"
    and 2: "map_overloads ds st1 = Inr (ss1, st')" and 3: "ss = s # ss1"
    by (auto split: sum.splits)
  from Cons.IH [OF 2] have ih: "length ss1 = length ds"
    "\<forall>j<length ds. \<exists>st''.
       format_overload (ds ! j) (overload_states ds st1 ! j) = Inr (ss1 ! j, st'')"
    by simp_all
  show ?case
  proof (intro conjI allI impI)
    show "length ss = length (d # ds)" using ih(1) 3 by simp
  next
    fix j assume "j < length (d # ds)"
    then show "\<exists>st''. format_overload ((d # ds) ! j) (overload_states (d # ds) st ! j) =
        Inr (ss ! j, st'')"
      using 1 3 ih(2) by (cases j) auto
  qed
qed

lemma output_record_total:
  "ds \<noteq> [] \<Longrightarrow> list_all kind_name_consistent ds \<Longrightarrow>
   \<exists>r st'. output_record m key ds st = Inr (r, st')"
  using map_overloads_total [of ds st]
  by (cases ds) (auto simp: output_record_def)

lemma output_record_shape:
  "output_record m key ds st = Inr (r, st') \<Longrightarrow>
   output_module r = m \<and> output_api r = key \<and>
   (case ds of [] \<Rightarrow> False | d0 # _ \<Rightarrow> output_kind r = getKindName d0) \<and>
   map_overloads ds st = Inr (output_signatures r, st')"
  by (auto simp: output_record_def split: list.splits sum.splits)

lemma output_record_signatures:
  "output_record m key ds st = Inr (r, st') \<Longrightarrow> output_signatures r \<noteq> []"
proof -
  assume a: "output_record m key ds st = Inr (r, st')"
  from output_record_shape [OF a] have "ds \<noteq> []"
    and "map_overloads ds st = Inr (output_signatures r, st')"
    by (auto split: list.splits)
  with map_overloads_positions [of ds st "output_signatures r" st'] show ?thesis
    by auto
qed

lemma file_output_total:
  "list_all (\<lambda>(key, ds). ds \<noteq> [] \<and> list_all kind_name_consistent ds) es \<Longrightarrow>
   \<exists>out st'. file_output m es st = Inr (out, st')"
proof (induction es arbitrary: st)
  case Nil
  show ?case by simp
next
  case (Cons e es)
  obtain key ds where e: "e = (key, ds)" by (cases e)
  from Cons.prems e have "ds \<noteq> []" "list_all kind_name_consistent ds" by simp_all
  then obtain r st1 where r: "output_record m key ds st = Inr (r, st1)"
    using output_record_total by blast
  from Cons obtain out st2 where out: "file_output m es st1 = Inr (out, st2)"
    by fastforce
  from r out show ?case unfolding e by simp
qed

lemma file_output_names:
  "file_output m es st = Inr (out, st') \<Longrightarrow>
   map (\<lambda>r. (output_module r, output_api r)) out = map (\<lambda>(key, ds). (m, key)) es \<and>
   list_all (\<lambda>r. output_signatures r \<noteq> []) out"
proof (induction es arbitrary: st out)
  case Nil
  then show ?case by auto
next
  case (Cons e es)
  obtain key ds where e: "e = (key, ds)" by (cases e)
  from Cons.prems obtain r st1 rs where 1: "output_record m key ds st = Inr (r, st1)"
    and 2: "file_output m es st1 = Inr (rs, st')" and 3: "out = r # rs"
    unfolding e by (auto split: sum.splits)
  from output_record_shape [OF 1] output_record_signatures [OF 1] Cons.IH [OF 2] 3
  show ?case unfolding e by simp
qed

lemma file_output_positions:
  "file_output m es st = Inr (out, st') \<Longrightarrow>
   length out = length es \<and>
   (\<forall>i<length es. \<exists>st''.
      output_record m (fst (es ! i)) (snd (es ! i)) (entry_states es st ! i) =
      Inr (out ! i, st''))"
proof (induction es arbitrary: st out)
  case Nil
  then show ?case by auto
next
  case (Cons e es)
  obtain key ds where e: "e = (key, ds)" by (cases e)
  from Cons.prems obtain r st1 rs where 1: "output_record m key ds st = Inr (r, st1)"
    and 2: "file_output m es st1 = Inr (rs, st')" and 3: "out = r # rs"
    unfolding e by (auto split: sum.splits)
  from output_record_shape [OF 1] have 4: "map_overloads ds st = Inr (output_signatures r, st1)"
    by simp
  from Cons.IH [OF 2] have ih: "length rs = length es"
    "\<forall>i<length es. \<exists>st''.
      output_record m (fst (es ! i)) (snd (es ! i)) (entry_states es st1 ! i) =
      Inr (rs ! i, st'')"
    by simp_all
  show ?case
  proof (intro conjI allI impI)
    show "length out = length (e # es)" using ih(1) 3 by simp
  next
    fix i assume "i < length (e # es)"
    then show "\<exists>st''. output_record m (fst ((e # es) ! i)) (snd ((e # es) ! i))
        (entry_states (e # es) st ! i) = Inr (out ! i, st'')"
      unfolding e using 1 3 4 ih(2) by (cases i) auto
  qed
qed

lemma map_generateApiForFile_total:
  "list_all well_formed_file files \<Longrightarrow>
   \<exists>outs st'. map_generateApiForFile files st = Inr (outs, st')"
proof (induction files arbitrary: st)
  case Nil
  show ?case by simp
next
  case (Cons f fs)
  from Cons.prems obtain o1 st1 where o1:
    "file_output (directory_base_name f) (exported_declarations f) st = Inr (o1, st1)"
    using file_output_total [of "exported_declarations f" "directory_base_name f" st]
    by (auto simp: well_formed_file_def)
  from Cons obtain o2 st2 where o2: "map_generateApiForFile fs st1 = Inr (o2, st2)"
    by fastforce
  from o1 o2 show ?case by (simp add: generateApiForFile_def)
qed

lemma map_generateApiForFile_names:
  "map_generateApiForFile files st = Inr (outs, st') \<Longrightarrow>
   map (\<lambda>r. (output_module r, output_api r)) (concat outs) = export_entries files \<and>
   list_all (\<lambda>r. output_signatures r \<noteq> []) (concat outs)"
proof (induction files arbitrary: st outs)
  case Nil
  then show ?case by auto
next
  case (Cons f fs)
  from Cons.prems obtain o1 st1 os where
    1: "file_output (directory_base_name f) (exported_declarations f) st = Inr (o1, st1)"
    and 2: "map_generateApiForFile fs st1 = Inr (os, st')" and 3: "outs = o1 # os"
    by (auto simp: generateApiForFile_def split: sum.splits)
  from file_output_names [OF 1] Cons.IH [OF 2] 3 show ?case by simp
qed

lemma output_record_error:
  "list_all kind_name_consistent ds \<Longrightarrow> output_record m key ds st = Inl e \<Longrightarrow> e = TypeError"
  using map_overloads_total [of ds st]
  by (auto simp: output_record_def split: list.splits sum.splits)

lemma file_output_error:
  "list_all (\<lambda>(key, ds). list_all kind_name_consistent ds) es \<Longrightarrow>
   file_output m es st = Inl e \<Longrightarrow> e = TypeError"
proof (induction es arbitrary: st)
  case Nil
  then show ?case by simp
next
  case (Cons x es)
  obtain key ds where x: "x = (key, ds)" by (cases x)
  from Cons show ?case unfolding x
    by (auto split: sum.splits dest: output_record_error)
qed

lemma map_generateApiForFile_error:
  "list_all kinds_consistent files \<Longrightarrow> map_generateApiForFile files st = Inl e \<Longrightarrow>
   e = TypeError"
proof (induction files arbitrary: st)
  case Nil
  then show ?case by simp
next
  case (Cons f fs)
  then show ?case
    by (auto simp: generateApiForFile_def kinds_consistent_def split: sum.splits
        dest: file_output_error)
qed

lemma generateApi_error:
  "list_all kinds_consistent files \<Longrightarrow> generateApi files = Inl e \<Longrightarrow> e = TypeError"
  by (auto simp: generateApi_def split: sum.splits dest: map_generateApiForFile_error)

lemma well_formed_examples:
  "list_all well_formed_file [store_module, effects_module]"
  by (simp add: well_formed_file_def store_module_def effects_module_def signatures_def
      object_prototype_names_def)

section \<open>The scenario of the module \<open>widgets\<close>\<close>

text \<open>
  C1 (as stated, refuted).  The module \<open>widgets\<close> exports the function \<open>add\<close>, declared
  with the \<^verbatim>\<open>export\<close> modifier.  The record of the run is not the record of the claim:
  its signature does not begin with the keyword \<^verbatim>\<open>function\<close>.
\<close>

theorem widgets_add_export_prefix_counterexample:
  "generateApi
     [\<lparr>directory_base_name = ''widgets'',
       exported_declarations =
         [(''add'', [FunctionDeclaration
            \<lparr>node_id = 1,
             text_before_body = ''export function add(a: number, b: number): number'',
             body_full_text = Some '' { return a+b; }''\<rparr>])]\<rparr>]
   \<noteq> Inr [\<lparr>output_module = ''widgets'', output_api = ''add'',
             output_kind = ''FunctionDeclaration'',
             output_signatures = [''function add(a: number, b: number): number;'']\<rparr>]"
  by (simp add: pipeline_defs formatFunctionDeclaration_def node_defs
      js_trim_def default_replacer_def is_white_space_def)

text \<open>
  C1 (amended).  For the module \<open>widgets\<close> and the function \<open>add\<close> declared as
  \<^verbatim>\<open>export function add(a: number, b: number): number\<close> with any body, the run yields
  exactly one record, with module \<open>widgets\<close>, api \<open>add\<close>, kind \<open>FunctionDeclaration\<close> and the
  single signature \<^verbatim>\<open>add(a: number, b: number): number;\<close>: the body is removed and the
  whole prefix \<^verbatim>\<open>export function\<close> is stripped.  The signature
  \<^verbatim>\<open>function add(a: number, b: number): number;\<close> is the result when the text of the
  declaration has no \<^verbatim>\<open>export\<close> modifier (the name is exported by a separate clause).
\<close>

theorem widgets_add_record:
  "generateApi
     [\<lparr>directory_base_name = ''widgets'',
       exported_declarations =
         [(''add'', [FunctionDeclaration
            \<lparr>node_id = n,
             text_before_body = ''export function add(a: number, b: number): number'',
             body_full_text = Some body\<rparr>])]\<rparr>]
   = Inr [\<lparr>output_module = ''widgets'', output_api = ''add'',
            output_kind = ''FunctionDeclaration'',
            output_signatures = [''add(a: number, b: number): number;'']\<rparr>]
   \<and>
   generateApi
     [\<lparr>directory_base_name = ''widgets'',
       exported_declarations =
         [(''add'', [FunctionDeclaration
            \<lparr>node_id = n,
             text_before_body = ''function add(a: number, b: number): number'',
             body_full_text = Some body\<rparr>])]\<rparr>]
   = Inr [\<lparr>output_module = ''widgets'', output_api = ''add'',
            output_kind = ''FunctionDeclaration'',
            output_signatures = [''function add(a: number, b: number): number;'']\<rparr>]"
  by (simp add: pipeline_defs formatFunctionDeclaration_def node_defs
      js_trim_def default_replacer_def is_white_space_def)

text \<open>The amended C1 at the body of the scenario, \<^verbatim>\<open>{ return a+b; }\<close>.\<close>

theorem widgets_add_record_witness:
  "generateApi
     [\<lparr>directory_base_name = ''widgets'',
       exported_declarations =
         [(''add'', [FunctionDeclaration
            \<lparr>node_id = 1,
             text_before_body = ''export function add(a: number, b: number): number'',
             body_full_text = Some '' { return a+b; }''\<rparr>])]\<rparr>]
   = Inr [\<lparr>output_module = ''widgets'', output_api = ''add'',
            output_kind = ''FunctionDeclaration'',
            output_signatures = [''add(a: number, b: number): number;'']\<rparr>]"
  using widgets_add_record [of 1 "'' { return a+b; }''"] by (rule conjunct1)

section \<open>White space in the signatures\<close>




section \<open>One record per exported name\<close>

text \<open>
  C3 (as stated, refuted).  The library can answer an exported name with an empty list of
  declarations.  The run then ends with the \<^verbatim>\<open>TypeError\<close> of
  \<^verbatim>\<open>declarations[0].getKindName()\<close>: no record is emitted, for this name or any other.
\<close>

theorem empty_declaration_list_counterexample:
  "generateApi
     [\<lparr>directory_base_name = ''widgets'',
       exported_declarations =
         [(''add'', [FunctionDeclaration
            \<lparr>node_id = 1,
             text_before_body = ''export function add(a: number, b: number): number'',
             body_full_text = Some '' { return a+b; }''\<rparr>]),
          (''gone'', [])]\<rparr>]
   = Inl TypeError"
  by (simp add: pipeline_defs formatFunctionDeclaration_def node_defs
      js_trim_def default_replacer_def is_white_space_def)

text \<open>
  C3 (amended).  On files whose exported names each have at least one declaration, with
  consistent kind names, the run does not fail; its records are, in order, one per
  exported name of each module (whatever the kinds of the declarations), and no record
  has an empty list of signatures.  For a declaration of a kind that the table does not
  know, the signature is the text of the declaration, and the state does not change.
\<close>

theorem every_export_one_record:
  assumes "list_all well_formed_file files"
  shows "(\<exists>out. generateApi files = Inr out \<and>
      map (\<lambda>r. (output_module r, output_api r)) out = export_entries files \<and>
      list_all (\<lambda>r. output_signatures r \<noteq> []) out) \<and>
    (\<forall>k t st. kind_name_consistent (OtherDeclaration k t) \<longrightarrow>
       format_overload (OtherDeclaration k t) st = Inr (t st, st))"
proof -
  from assms obtain outs st' where outs: "map_generateApiForFile files {} = Inr (outs, st')"
    using map_generateApiForFile_total by blast
  then have "generateApi files = Inr (concat outs)"
    by (simp add: generateApi_def)
  with map_generateApiForFile_names [OF outs] format_overload_other show ?thesis
    by blast
qed

text \<open>
  The amended C3 at two modules: an overloaded function, a namespace (a kind without a
  rule), an enum and a variable.
\<close>

theorem every_export_one_record_witness:
  "list_all well_formed_file [store_module, effects_module] \<and>
   (\<exists>out. generateApi [store_module, effects_module] = Inr out \<and>
      map (\<lambda>r. (output_module r, output_api r)) out =
        [(''store'', ''select''), (''store'', ''testing''), (''store'', ''Mode''),
         (''effects'', ''retries'')] \<and>
      list_all (\<lambda>r. output_signatures r \<noteq> []) out)"
proof -
  have "export_entries [store_module, effects_module] =
        [(''store'', ''select''), (''store'', ''testing''), (''store'', ''Mode''),
         (''effects'', ''retries'')]"
    by (simp add: store_module_def effects_module_def)
  with every_export_one_record [OF well_formed_examples] well_formed_examples
  show ?thesis by simp
qed

section \<open>Overloads\<close>

text \<open>
  C4.  In every run of a file that does not fail, there is one record per exported name,
  in order; the record has as many signatures as the name has declarations, and its
  signature number \<open>j\<close> is the result of the formatting of the declaration number \<open>j\<close>, in
  the state that the declarations before it have left: nothing is merged or removed.  On
  a well-formed file the run does not fail.
\<close>

theorem overloads_preserved:
  "(\<forall>out st'. generateApiForFile f st = Inr (out, st') \<longrightarrow>
      length out = length (exported_declarations f) \<and>
      (\<forall>i<length (exported_declarations f).
         case exported_declarations f ! i of
           (key, ds) \<Rightarrow>
             output_api (out ! i) = key \<and>
             length (output_signatures (out ! i)) = length ds \<and>
             (\<forall>j<length ds. \<exists>st''.
                format_overload (ds ! j)
                  (overload_states ds (entry_states (exported_declarations f) st ! i) ! j) =
                Inr (output_signatures (out ! i) ! j, st'')))) \<and>
   (well_formed_file f \<longrightarrow> (\<exists>out st'. generateApiForFile f st = Inr (out, st')))"
proof (intro conjI allI impI)
  fix out st'
  assume a: "generateApiForFile f st = Inr (out, st')"
  let ?es = "exported_declarations f"
  let ?m = "directory_base_name f"
  from a have fo: "file_output ?m ?es st = Inr (out, st')"
    by (simp add: generateApiForFile_def)
  from file_output_positions [OF fo] show "length out = length ?es" by simp
  fix i assume i: "i < length ?es"
  obtain key ds where e: "?es ! i = (key, ds)" by (cases "?es ! i")
  from file_output_positions [OF fo] i e obtain st1 where
    r: "output_record ?m key ds (entry_states ?es st ! i) = Inr (out ! i, st1)"
    by fastforce
  from output_record_shape [OF r] have api: "output_api (out ! i) = key"
    and mo: "map_overloads ds (entry_states ?es st ! i) = Inr (output_signatures (out ! i), st1)"
    by simp_all
  from map_overloads_positions [OF mo] api
  show "case ?es ! i of
           (key, ds) \<Rightarrow>
             output_api (out ! i) = key \<and>
             length (output_signatures (out ! i)) = length ds \<and>
             (\<forall>j<length ds. \<exists>st''.
                format_overload (ds ! j) (overload_states ds (entry_states ?es st ! i) ! j) =
                Inr (output_signatures (out ! i) ! j, st''))"
    unfolding e by simp
next
  assume "well_formed_file f"
  then show "\<exists>out st'. generateApiForFile f st = Inr (out, st')"
    using file_output_total [of "exported_declarations f" "directory_base_name f" st]
    by (simp add: well_formed_file_def generateApiForFile_def)
qed

text \<open>
  C4 at a function with three declarations, two of which give the same signature: the
  record keeps all three, in order.
\<close>

theorem overloads_preserved_witness:
  "well_formed_file store_module \<and>
   (\<exists>out st'. generateApiForFile store_module {} = Inr (out, st') \<and>
      map output_signatures out =
        [[''select(key: string): string;'', ''select(key: string): string;'',
          ''select(key: any): any;''],
         [''namespace testing { }''],
         [''export enum Mode { On, Off }'']])"
proof -
  have wf: "well_formed_file store_module"
    using well_formed_examples by simp
  have "generateApiForFile store_module {} =
    Inr ([\<lparr>output_module = ''store'', output_api = ''select'',
           output_kind = ''FunctionDeclaration'',
           output_signatures =
             [''select(key: string): string;'', ''select(key: string): string;'',
              ''select(key: any): any;'']\<rparr>,
         \<lparr>output_module = ''store'', output_api = ''testing'',
           output_kind = ''ModuleDeclaration'',
           output_signatures = [''namespace testing { }'']\<rparr>,
         \<lparr>output_module = ''store'', output_api = ''Mode'',
           output_kind = ''EnumDeclaration'',
           output_signatures = [''export enum Mode { On, Off }'']\<rparr>], {3})"
    by (simp add: store_module_def pipeline_defs rule_defs node_defs
        js_trim_def default_replacer_def is_white_space_def Let_def)
  with overloads_preserved [of store_module "{}"] wf show ?thesis by simp
qed

section \<open>Interfaces inherit one level\<close>

text \<open>
  C5.  For an interface \<open>B\<close> that extends the interface \<open>A\<close>, the signature of \<open>B\<close> lists
  the own properties of \<open>B\<close>, then an empty line and the line \<^verbatim>\<open>// inherited from A\<close>,
  then the own properties of \<open>A\<close>.  The bases of \<open>A\<close> are never read: the signature is
  the same when \<open>A\<close> has no base at all.  So it is for every interface: its signature
  is the same when every one of its base declarations loses the bases of its own.
\<close>

theorem interface_inheritance_one_level:
  "formatInterfaceDeclaration (InterfaceDeclaration
     (Interface nameB paramsB propsB
        [BaseInterface (Interface nameA paramsA propsA basesA textA)] textB)) st =
   Inr (interface_heading (Interface nameB paramsB propsB
          [BaseInterface (Interface nameA paramsA propsA basesA textA)] textB) @
        '' {'' @ CRLF @
        js_join CRLF
          (map (\<lambda>p. removeDoubleSpacesAndLineBreaks p default_replacer) propsB @
           [[], ''// inherited from '' @ nameA] @
           map (\<lambda>p. removeDoubleSpacesAndLineBreaks p default_replacer) propsA) @
        CRLF @ ''}'', st) \<and>
   formatInterfaceDeclaration (InterfaceDeclaration
     (Interface nameB paramsB propsB
        [BaseInterface (Interface nameA paramsA propsA basesA textA)] textB)) st =
   formatInterfaceDeclaration (InterfaceDeclaration
     (Interface nameB paramsB propsB
        [BaseInterface (Interface nameA paramsA propsA [] textA)] textB)) st \<and>
   formatInterfaceDeclaration (InterfaceDeclaration (Interface n ps props bases t)) st =
   formatInterfaceDeclaration (InterfaceDeclaration
     (Interface n ps props (map without_bases bases) t)) st"
  using js_join_inherited [of "map (\<lambda>p. removeDoubleSpacesAndLineBreaks p default_replacer) propsB"
      nameA "map (\<lambda>p. removeDoubleSpacesAndLineBreaks p default_replacer) propsA"]
    format_without_bases [of n ps props bases t st]
  by (simp add: interface_format interface_heading_def Let_def)

text \<open>
  C5 at \<^verbatim>\<open>TypedAction<T> extends Action\<close>, \<^verbatim>\<open>Action extends Root\<close>: the property
  \<^verbatim>\<open>id: string;\<close> of \<open>Root\<close> is not listed.
\<close>

theorem interface_inheritance_one_level_witness:
  "formatInterfaceDeclaration (InterfaceDeclaration typed_action_interface) {} =
   Inr (''interface TypedAction<T> {'' @ CRLF @ ''readonly payload: T;'' @ CRLF @ CRLF @
        ''// inherited from Action'' @ CRLF @ ''type: string;'' @ CRLF @ ''}'', {})"
  using interface_inheritance_one_level
    [of "''TypedAction''" "[''T'']" "[''readonly payload: T;'']" "''Action''" "[]"
        "[''type:  string;'']" "[BaseInterface root_interface]"
        "''interface Action extends Root { type:  string; }''"
        "''interface TypedAction<T> extends Action { readonly payload: T; }''" "{}"
        "''Root''" "[]" "[]" "[]" "[]"]
  by (simp add: typed_action_interface_def action_interface_def interface_heading_def
      default_replacer_def is_white_space_def CRLF_def)

section \<open>Empty bodies\<close>

text \<open>
  C6 (as stated, refuted).  An interface without own properties that extends an interface
  without properties has no property, own or inherited, but its body is not \<^verbatim>\<open>{}\<close>.
\<close>

theorem empty_interface_with_base_counterexample:
  "formatInterfaceDeclaration (InterfaceDeclaration
     (Interface ''B'' [] [] [BaseInterface (Interface ''A'' [] [] [] ''interface A {}'')]
        ''interface B extends A {}'')) {} =
   Inr (''interface B {'' @ CRLF @ CRLF @ ''// inherited from A'' @ CRLF @ ''}'', {}) \<and>
   formatInterfaceDeclaration (InterfaceDeclaration
     (Interface ''B'' [] [] [BaseInterface (Interface ''A'' [] [] [] ''interface A {}'')]
        ''interface B extends A {}'')) {} \<noteq> Inr (''interface B {}'', {})"
  by (simp add: formatInterfaceDeclaration_def CRLF_def)

text \<open>
  C6 (amended).  A class without public method has the body \<^verbatim>\<open>{ }\<close>; an interface
  without own property and without interface among its base declarations has the body
  \<^verbatim>\<open>{}\<close>; the two signatures differ, and only the first ends with \<^verbatim>\<open>{ }\<close>.
\<close>

theorem empty_class_and_interface_distinct:
  assumes "filter (\<lambda>m. getScope m = Public) (class_members c) = []"
    and "interface_properties i = []"
    and "\<forall>b\<in>set (interface_bases i). b = BaseClass \<or> b = BaseTypeAlias"
  shows "formatClassDeclaration (ClassDeclaration c) st = Inr (class_heading c @ '' { }'', st) \<and>
    formatInterfaceDeclaration (InterfaceDeclaration i) st' =
      Inr (interface_heading i @ '' {}'', st') \<and>
    class_heading c @ '' { }'' \<noteq> interface_heading i @ '' {}'' \<and>
    suffix ''{ }'' (class_heading c @ '' { }'') \<and>
    \<not> suffix ''{ }'' (interface_heading i @ '' {}'')"
proof -
  from assms(1) have c:
    "formatClassDeclaration (ClassDeclaration c) st = Inr (class_heading c @ '' { }'', st)"
    by (rule class_no_public)
  from assms(3) have e: "concat (map inherited_section (interface_bases i)) = []"
    by auto
  have i: "formatInterfaceDeclaration (InterfaceDeclaration i) st' =
      Inr (interface_heading i @ '' {}'', st')"
    by (simp add: interface_format assms(2) e)
  obtain r where r: "class_heading c = ''class '' @ r"
    using class_heading_shape by blast
  have d: "class_heading c @ '' { }'' \<noteq> interface_heading i @ '' {}''"
    by (simp add: r interface_heading_def Let_def)
  have s1: "suffix ''{ }'' (class_heading c @ '' { }'')"
    by (simp add: suffix_def)
  have s2: "\<not> suffix ''{ }'' (interface_heading i @ '' {}'')"
  proof
    assume "suffix ''{ }'' (interface_heading i @ '' {}'')"
    then obtain p where "interface_heading i @ '' {}'' = p @ ''{ }''"
      by (auto simp: suffix_def)
    then have "rev (interface_heading i @ '' {}'') = rev (p @ ''{ }'')" by simp
    then show False by simp
  qed
  from c i d s1 s2 show ?thesis by simp
qed

text \<open>The amended C6 at a class with one private method and at an empty interface.\<close>

theorem empty_class_and_interface_distinct_witness:
  "formatClassDeclaration (ClassDeclaration
     \<lparr>class_name = Some ''Shape'', class_type_parameters = [], class_extends = None,
      class_implements = [],
      class_members = [\<lparr>node_id = 1, text_before_body = ''private area(): number'',
                         body_full_text = Some '' { return 0; }'',
                         scope_modifier = Some Private, abstract_modifier = False\<rparr>],
      class_is_ambient = False,
      class_text = (\<lambda>st. ''export class Shape { private area(): number { return 0; } }'')\<rparr>)
     {} = Inr (''class Shape { }'', {}) \<and>
   formatInterfaceDeclaration (InterfaceDeclaration
     (Interface ''Shape'' [] [] [] ''interface Shape {}'')) {} = Inr (''interface Shape {}'', {})"
  using empty_class_and_interface_distinct
    [of "\<lparr>class_name = Some ''Shape'', class_type_parameters = [], class_extends = None,
      class_implements = [],
      class_members = [\<lparr>node_id = 1, text_before_body = ''private area(): number'',
                         body_full_text = Some '' { return 0; }'',
                         scope_modifier = Some Private, abstract_modifier = False\<rparr>],
      class_is_ambient = False,
      class_text = (\<lambda>st. ''export class Shape { private area(): number { return 0; } }'')\<rparr>"
      "Interface ''Shape'' [] [] [] ''interface Shape {}''" "{}" "{}"]
  by (simp add: getScope_def class_heading_def interface_heading_def)

section \<open>The methods of a class\<close>

text \<open>
  C7 (the code at the failing input).  A module exports one class under two names.  The
  first record lists the public methods of the class, each with a semicolon in place of
  its body.  The rule has removed the bodies from the nodes themselves, so for the second
  name \<^verbatim>\<open>getMethods()\<close> lists no method any more, and the signature of the same class
  has the empty body.
\<close>

theorem class_methods_lost_on_second_visit:
  "generateApi [two_names_module] =
   Inr [\<lparr>output_module = ''store'', output_api = ''Store'',
          output_kind = ''ClassDeclaration'',
          output_signatures =
            [''class Store<T> implements Observer<T> {'' @ CRLF @
             ''select(key: string): T;'' @ CRLF @
             ''public static create<T>(): Store<T>;'' @ CRLF @ ''}'']\<rparr>,
        \<lparr>output_module = ''store'', output_api = ''AppStore'',
          output_kind = ''ClassDeclaration'',
          output_signatures = [''class Store<T> implements Observer<T> { }'']\<rparr>]"
  by (simp add: two_names_module_def store_class_def pipeline_defs
      formatClassDeclaration_def node_defs js_trim_def default_replacer_def
      is_white_space_def CRLF_def Let_def)

text \<open>
  When the rule reaches a class whose methods all have a body, none of them removed so
  far, the body of the signature lists exactly the methods with the modifier
  \<^verbatim>\<open>public\<close> or with no visibility modifier, in their order, separated by CR LF.
\<close>

lemma class_public_methods_first_visit:
  assumes "\<forall>m\<in>set (class_members c). method_line m \<noteq> []"
    and "\<forall>m\<in>set (class_members c). node_id m \<notin> st"
    and "\<forall>m\<in>set (class_members c). body_full_text m \<noteq> None"
  shows "\<exists>st'. formatClassDeclaration (ClassDeclaration c) st =
    Inr (class_heading c @
      (let public = filter (\<lambda>m. scope_modifier m = None \<or> scope_modifier m = Some Public)
                      (class_members c)
       in if public = [] then '' { }''
          else '' {'' @ CRLF @ js_join CRLF (map method_line public) @ CRLF @ ''}''), st')"
proof -
  from assms(2,3) have "getMethods c st = class_members c"
    by (simp add: getMethods_def hasBody_def)
  with class_signature [OF assms(1), of st] show ?thesis
    by (simp add: getScope_public)
qed

section \<open>Type aliases\<close>

text \<open>
  C8 (the code at the failing input).  A type alias declared without \<^verbatim>\<open>export\<close>
  modifier (and exported by a separate clause) whose name contains \<^verbatim>\<open>export\<close>: the rule
  removes these letters from the name.
\<close>

theorem type_alias_export_inside_name:
  "formatTypeAliasDeclaration (TypeAliasDeclaration ''type exportOptions = string;'') st =
   Inr (''type Options = string;'', st)"
  by (simp add: formatTypeAliasDeclaration_def js_trim_def is_white_space_def)

text \<open>
  When the text begins with \<^verbatim>\<open>export\<close>, the signature is the rest of the text, trimmed.
\<close>

lemma type_alias_leading_export:
  "formatTypeAliasDeclaration (TypeAliasDeclaration (''export'' @ rest)) st =
   Inr (js_trim rest, st)"
  by (simp add: formatTypeAliasDeclaration_def)

section \<open>Variables\<close>




text \<open>
  The text of the type is the answer of the library in the state in which the rule runs.
  Here the type of \<^verbatim>\<open>total\<close> is inferred from the body of \<^verbatim>\<open>count\<close>, which the run has
  removed before it reaches \<^verbatim>\<open>total\<close>.
\<close>

lemma variable_type_after_removed_body:
  "generateApi [count_module] =
   Inr [\<lparr>output_module = ''count'', output_api = ''count'',
          output_kind = ''FunctionDeclaration'', output_signatures = [''count();'']\<rparr>,
        \<lparr>output_module = ''count'', output_api = ''total'',
          output_kind = ''VariableDeclaration'',
          output_signatures = [''const total: any'']\<rparr>]"
  by (simp add: count_module_def pipeline_defs rule_defs node_defs js_trim_def
      default_replacer_def is_white_space_def Let_def)

section \<open>Kind mismatch\<close>

text \<open>
  C10.  Each of the six rules throws its error exactly on the declarations that are not
  of its kind.  The rule that the table selects for a declaration with a consistent kind
  name answers a signature, and a run on files with consistent kind names does not end
  with the error of a rule.
\<close>

theorem kind_mismatch_unreachable:
  "raises_iff_mismatch formatFunctionDeclaration isFunctionDeclaration
     ''Declaration is not a function'' \<and>
   raises_iff_mismatch formatClassDeclaration isClassDeclaration
     ''Declaration is not a class'' \<and>
   raises_iff_mismatch formatVariableDeclaration isVariableDeclaration
     ''Declaration is not a variable'' \<and>
   raises_iff_mismatch formatInterfaceDeclaration isInterfaceDeclaration
     ''Declaration is not an interface'' \<and>
   raises_iff_mismatch formatTypeAliasDeclaration isTypeAliasDeclaration
     ''Declaration is not a type alias'' \<and>
   raises_iff_mismatch formatEnumDeclaration isEnumDeclaration
     ''Declaration is not an enum'' \<and>
   (kind_name_consistent d \<longrightarrow> (\<exists>s st'. format_overload d st = Inr (s, st'))) \<and>
   (list_all kinds_consistent files \<longrightarrow> (\<forall>message. generateApi files \<noteq> Inl (Error message)))"
  using rule_mismatch format_overload_total [of d st] generateApi_error [of files]
  by (intro conjI impI allI) auto

text \<open>
  C10 at an enum: the class rule rejects it, the table selects the enum rule for it, and
  the run on the example modules does not end with the error of a rule.
\<close>

theorem kind_mismatch_unreachable_witness:
  "formatClassDeclaration (EnumDeclaration ''export enum Mode { On, Off }'') {} =
     Inl (Error ''Declaration is not a class'') \<and>
   format_overload (EnumDeclaration ''export enum Mode { On, Off }'') {} =
     Inr (''export enum Mode { On, Off }'', {}) \<and>
   list_all kinds_consistent [store_module, effects_module] \<and>
   (\<forall>message. generateApi [store_module, effects_module] \<noteq> Inl (Error message))"
proof -
  have k: "list_all kinds_consistent [store_module, effects_module]"
    by (simp add: kinds_consistent_def store_module_def effects_module_def signatures_def
      object_prototype_names_def)
  have e: "format_overload (EnumDeclaration ''export enum Mode { On, Off }'') {} =
     Inr (''export enum Mode { On, Off }'', {})"
    by (simp add: format_overload_def signatures_def formatEnumDeclaration_def)
  from kind_mismatch_unreachable
    [of "EnumDeclaration ''export enum Mode { On, Off }''" "{}"
        "[store_module, effects_module]"]
  have "formatClassDeclaration (EnumDeclaration ''export enum Mode { On, Off }'') {} =
     Inl (Error ''Declaration is not a class'')"
    and "\<forall>message. generateApi [store_module, effects_module] \<noteq> Inl (Error message)"
    using k by (simp_all add: raises_iff_mismatch_def)
  with k e show ?thesis by blast
qed

end
